theory Spec2Isabelle
  imports Main
begin

section \<open>Python strings\<close>

text \<open>
  Text is a list of characters. A \<^typ>\<open>char\<close> stands for a code point below 256; the
  directive language of the converter is ASCII, and the character classes below are Python's
  classes restricted to that range.
\<close>

definition whitespace_chars :: string where
  "whitespace_chars = [CHR 0x09, CHR 0x0A, CHR 0x0B, CHR 0x0C, CHR 0x0D,
     CHR 0x1C, CHR 0x1D, CHR 0x1E, CHR 0x1F, CHR 0x20, CHR 0x85, CHR 0xA0]"

definition isspace :: "char \<Rightarrow> bool" where
  "isspace c = (c \<in> set whitespace_chars)"

definition upper_letters :: string where
  "upper_letters = ''ABCDEFGHIJKLMNOPQRSTUVWXYZ'' @
     [CHR 0xC0, CHR 0xC1, CHR 0xC2, CHR 0xC3, CHR 0xC4, CHR 0xC5, CHR 0xC6, CHR 0xC7,
      CHR 0xC8, CHR 0xC9, CHR 0xCA, CHR 0xCB, CHR 0xCC, CHR 0xCD, CHR 0xCE, CHR 0xCF,
      CHR 0xD0, CHR 0xD1, CHR 0xD2, CHR 0xD3, CHR 0xD4, CHR 0xD5, CHR 0xD6,
      CHR 0xD8, CHR 0xD9, CHR 0xDA, CHR 0xDB, CHR 0xDC, CHR 0xDD, CHR 0xDE]"

definition lower_letters :: string where
  "lower_letters = ''abcdefghijklmnopqrstuvwxyz'' @
     [CHR 0xE0, CHR 0xE1, CHR 0xE2, CHR 0xE3, CHR 0xE4, CHR 0xE5, CHR 0xE6, CHR 0xE7,
      CHR 0xE8, CHR 0xE9, CHR 0xEA, CHR 0xEB, CHR 0xEC, CHR 0xED, CHR 0xEE, CHR 0xEF,
      CHR 0xF0, CHR 0xF1, CHR 0xF2, CHR 0xF3, CHR 0xF4, CHR 0xF5, CHR 0xF6,
      CHR 0xF8, CHR 0xF9, CHR 0xFA, CHR 0xFB, CHR 0xFC, CHR 0xFD, CHR 0xFE]"

definition lower_char :: "char \<Rightarrow> char" where
  "lower_char c = (case map_of (zip upper_letters lower_letters) c of Some d \<Rightarrow> d | None \<Rightarrow> c)"

text \<open>\<^verbatim>\<open>s.lower()\<close>\<close>

definition lower :: "string \<Rightarrow> string" where
  "lower s = map lower_char s"

text \<open>The characters \<^verbatim>\<open>\w\<close> accepts: \<^verbatim>\<open>isalnum()\<close> or the underscore.\<close>

definition word_chars :: string where
  "word_chars = ''0123456789_'' @ upper_letters @ lower_letters @
     [CHR 0xAA, CHR 0xB2, CHR 0xB3, CHR 0xB5, CHR 0xB9, CHR 0xBA, CHR 0xBC, CHR 0xBD, CHR 0xBE,
      CHR 0xDF, CHR 0xFF]"

definition isword :: "char \<Rightarrow> bool" where
  "isword c = (c \<in> set word_chars)"

text \<open>\<^verbatim>\<open>s.lstrip()\<close>, \<^verbatim>\<open>s.rstrip()\<close>, \<^verbatim>\<open>s.strip()\<close>\<close>

definition lstrip :: "string \<Rightarrow> string" where
  "lstrip s = dropWhile isspace s"

definition rstrip :: "string \<Rightarrow> string" where
  "rstrip s = rev (dropWhile isspace (rev s))"

definition strip :: "string \<Rightarrow> string" where
  "strip s = lstrip (rstrip s)"

text \<open>\<^verbatim>\<open>s.startswith(p)\<close>, \<^verbatim>\<open>s.endswith(p)\<close>, \<^verbatim>\<open>p in s\<close>\<close>

definition startswith :: "string \<Rightarrow> string \<Rightarrow> bool" where
  "startswith s p = (take (length p) s = p)"

definition endswith :: "string \<Rightarrow> string \<Rightarrow> bool" where
  "endswith s p = (length p \<le> length s \<and> drop (length s - length p) s = p)"

fun substring_in :: "string \<Rightarrow> string \<Rightarrow> bool" where
  "substring_in p [] = (p = [])"
| "substring_in p (x # xs) = (startswith (x # xs) p \<or> substring_in p xs)"

text \<open>\<^verbatim>\<open>s.rfind(c)\<close> for a single character: the last index of \<open>c\<close>, or \<open>-1\<close>.\<close>

definition rfind :: "string \<Rightarrow> char \<Rightarrow> int" where
  "rfind s c = (if c \<in> set s
     then int (length s) - 1 - int (length (takeWhile (\<lambda>x. x \<noteq> c) (rev s)))
     else - 1)"

text \<open>\<^verbatim>\<open>s[:i]\<close> and \<^verbatim>\<open>s[i:]\<close> for an index \<open>i \<ge> 0\<close>.\<close>

definition slice_to :: "string \<Rightarrow> int \<Rightarrow> string" where
  "slice_to s i = take (nat i) s"

definition slice_from :: "string \<Rightarrow> int \<Rightarrow> string" where
  "slice_from s i = drop (nat i) s"

section \<open>Regular expressions\<close>

text \<open>
  The patterns of the program use literals, the classes \<^verbatim>\<open>\s\<close>, \<^verbatim>\<open>\w\<close> and
  \<^verbatim>\<open>.\<close>, sequence, alternation, groups, \<^verbatim>\<open>$\<close>, and repetition of a single
  character class only. The flags are translated with the pattern: under \<^verbatim>\<open>re.I\<close> a
  literal is \<open>LitI\<close>, under \<^verbatim>\<open>re.S\<close> the dot is \<open>DotAll\<close>.

  \<open>run r (s, g)\<close> lists every way \<open>r\<close> matches a prefix of \<open>s\<close>, as the remaining text
  and the groups captured, in the order a backtracking matcher tries them: the head of the
  list is the match Python reports.
\<close>

datatype cclass = Lit char | LitI char | Space | Word | Dot | DotAll

datatype regex =
    Eps
  | Cls cclass
  | Seq regex regex
  | Alt regex regex
  | Star cclass
  | StarLazy cclass
  | Group string regex
  | Eos

type_synonym captures = "(string \<times> string) list"
type_synonym mstate = "string \<times> captures"

fun cc_match :: "cclass \<Rightarrow> char \<Rightarrow> bool" where
  "cc_match (Lit c) x = (x = c)"
| "cc_match (LitI c) x = (lower_char x = lower_char c)"
| "cc_match Space x = isspace x"
| "cc_match Word x = isword x"
| "cc_match Dot x = (x \<noteq> CHR 0x0A)"
| "cc_match DotAll x = True"

text \<open>Greedy repetition gives the longest run first, lazy repetition the shortest.\<close>

fun greedy :: "cclass \<Rightarrow> string \<Rightarrow> string list" where
  "greedy c [] = [[]]"
| "greedy c (x # xs) = (if cc_match c x then greedy c xs @ [x # xs] else [x # xs])"

fun lazy :: "cclass \<Rightarrow> string \<Rightarrow> string list" where
  "lazy c [] = [[]]"
| "lazy c (x # xs) = (x # xs) # (if cc_match c x then lazy c xs else [])"

fun run :: "regex \<Rightarrow> mstate \<Rightarrow> mstate list" where
  "run Eps st = [st]"
| "run (Cls c) (s, g) = (case s of [] \<Rightarrow> [] | x # xs \<Rightarrow> if cc_match c x then [(xs, g)] else [])"
| "run (Seq a b) st = concat (map (run b) (run a st))"
| "run (Alt a b) st = run a st @ run b st"
| "run (Star c) (s, g) = map (\<lambda>r. (r, g)) (greedy c s)"
| "run (StarLazy c) (s, g) = map (\<lambda>r. (r, g)) (lazy c s)"
| "run (Group n r) (s, g) =
     map (\<lambda>(s', g'). (s', (n, take (length s - length s') s) # g')) (run r (s, g))"
| "run Eos (s, g) = (if s = [] \<or> s = [CHR 0x0A] then [(s, g)] else [])"

text \<open>Pattern text: a literal string, with and without \<^verbatim>\<open>re.I\<close>; \<^verbatim>\<open>c+\<close>; \<^verbatim>\<open>(?:r)?\<close>.\<close>

definition lit :: "string \<Rightarrow> regex" where
  "lit s = foldr (\<lambda>c r. Seq (Cls (Lit c)) r) s Eps"

definition liti :: "string \<Rightarrow> regex" where
  "liti s = foldr (\<lambda>c r. Seq (Cls (LitI c)) r) s Eps"

definition Plus :: "cclass \<Rightarrow> regex" where
  "Plus c = Seq (Cls c) (Star c)"

definition Opt :: "regex \<Rightarrow> regex" where
  "Opt r = Alt r Eps"

text \<open>
  \<^verbatim>\<open>pattern.match(s)\<close>: the first match at the start of \<open>s\<close>, or \<open>None\<close>.
  \<^verbatim>\<open>m[name]\<close> and \<^verbatim>\<open>m.groupdict()[name]\<close>: the text of the group, \<open>None\<close> when
  the group took no part in the match.
\<close>

definition re_match :: "regex \<Rightarrow> string \<Rightarrow> mstate option" where
  "re_match r s = (case run r (s, []) of [] \<Rightarrow> None | m # _ \<Rightarrow> Some m)"

definition group_of :: "mstate \<Rightarrow> string \<Rightarrow> string option" where
  "group_of m n = map_of (snd m) n"

text \<open>\<^verbatim>\<open>pattern.search(s)\<close>: the first match at the leftmost position that has one.\<close>

fun re_search :: "regex \<Rightarrow> string \<Rightarrow> mstate option" where
  "re_search r [] = re_match r []"
| "re_search r (x # xs) =
     (case re_match r (x # xs) of Some m \<Rightarrow> Some m | None \<Rightarrow> re_search r xs)"

text \<open>
  \<^verbatim>\<open>pattern.findall(s)\<close> for a pattern with the groups \<open>names\<close>: one tuple per match, a
  group that took no part giving the empty string. \<^verbatim>\<open>re.sub(pattern, repl, s)\<close> with a
  constant replacement. No pattern the program passes to them matches the empty string; after
  an empty match the scan moves on by one character.
\<close>

function findall :: "regex \<Rightarrow> string list \<Rightarrow> string \<Rightarrow> string list list" where
  "findall r names s =
     (case re_match r s of
        None \<Rightarrow> (case s of [] \<Rightarrow> [] | x # xs \<Rightarrow> findall r names xs)
      | Some m \<Rightarrow>
          map (\<lambda>n. case group_of m n of None \<Rightarrow> [] | Some t \<Rightarrow> t) names #
          (if length (fst m) < length s then findall r names (fst m)
           else (case s of [] \<Rightarrow> [] | x # xs \<Rightarrow> findall r names xs)))"
  by pat_completeness auto
termination
  by (relation "measure (\<lambda>(r, names, s). length s)") auto

function re_sub :: "regex \<Rightarrow> string \<Rightarrow> string \<Rightarrow> string" where
  "re_sub r repl s =
     (case re_match r s of
        None \<Rightarrow> (case s of [] \<Rightarrow> [] | x # xs \<Rightarrow> x # re_sub r repl xs)
      | Some m \<Rightarrow>
          repl @
          (if length (fst m) < length s then re_sub r repl (fst m)
           else (case s of [] \<Rightarrow> [] | x # xs \<Rightarrow> x # re_sub r repl xs)))"
  by pat_completeness auto
termination
  by (relation "measure (\<lambda>(r, repl, s). length s)") auto

section \<open>Paths\<close>

text \<open>
  \<^verbatim>\<open>os.path\<close> is taken as \<^verbatim>\<open>posixpath\<close> (the script's interpreter line is
  \<^verbatim>\<open>/usr/bin/python3\<close>): the separator is \<^verbatim>\<open>/\<close> and \<^verbatim>\<open>normcase\<close> returns its
  argument.
\<close>

definition normcase :: "string \<Rightarrow> string" where
  "normcase p = p"

definition join :: "string \<Rightarrow> string \<Rightarrow> string" where
  "join a b =
     (if startswith b ''/'' then b
      else if a = [] \<or> endswith a ''/'' then a @ b
      else a @ ''/'' @ b)"

definition dirname :: "string \<Rightarrow> string" where
  "dirname p =
     (let i = rfind p (CHR ''/'') + 1;
          head = slice_to p i
      in if head \<noteq> [] \<and> head \<noteq> replicate (length head) (CHR ''/'')
         then rev (dropWhile (\<lambda>c. c = CHR ''/'') (rev head))
         else head)"

definition splitext :: "string \<Rightarrow> string \<times> string" where
  "splitext p =
     (let sepIndex = rfind p (CHR ''/'');
          dotIndex = rfind p (CHR ''.'')
      in if dotIndex > sepIndex \<and>
            list_ex (\<lambda>c. c \<noteq> CHR ''.'') (slice_to (slice_from p (sepIndex + 1)) (dotIndex - (sepIndex + 1)))
         then (slice_to p dotIndex, slice_from p dotIndex)
         else (p, []))"

section \<open>Tokens, configuration and context\<close>

datatype TokenType = SQL | LINE_COMMENT | BLOCK_COMMENT | HEADER | GROUP_TAG | META_COMMENT

text \<open>\<^verbatim>\<open>token.type.name\<close>\<close>

fun type_name :: "TokenType \<Rightarrow> string" where
  "type_name SQL = ''SQL''"
| "type_name LINE_COMMENT = ''LINE_COMMENT''"
| "type_name BLOCK_COMMENT = ''BLOCK_COMMENT''"
| "type_name HEADER = ''HEADER''"
| "type_name GROUP_TAG = ''GROUP_TAG''"
| "type_name META_COMMENT = ''META_COMMENT''"

text \<open>
  The contents of a token are text (comments, SQL) or the \<^verbatim>\<open>groupdict()\<close> of the pattern
  that recognised it: \<open>tag\<close> and \<open>value\<close> for a header line, \<open>tag\<close>, \<open>name\<close> and
  the optional \<open>output\<close> for a group tag.
\<close>

datatype contents =
    Text string
  | HeaderDict string string
  | GroupDict string string "string option"

record Token =
  type :: TokenType
  contents :: contents

datatype error =
    StopIteration
  | IndexError
  | KeyError string
  | TypeError
  | AttributeError
  | LookupError string
  | ValueError string
  | UnboundLocalError

text \<open>
  \<^verbatim>\<open>self.config\<close>: the entries the constructors set, and the entries the header sets
  (\<^verbatim>\<open>HEADER_REGEX\<close> admits the tags \<^verbatim>\<open>version\<close>, \<^verbatim>\<open>output\<close>, \<^verbatim>\<open>dialect\<close> and
  \<^verbatim>\<open>endhead\<close> only, so a header line never sets a constructor's entry).
\<close>

record config =
  outfile_type :: string
  cfg_allow_comments :: bool
  json_space :: string
  header_fields :: "string \<rightharpoonup> string"

text \<open>
  \<^verbatim>\<open>existing_params\<close>. The entry \<^verbatim>\<open>'meta'\<close> is there only between a meta comment and
  its statement; it holds a \<^verbatim>\<open>map\<close> object, an iterator, modelled as the list of the items
  it has yet to produce.
\<close>

record params =
  p_output :: string
  p_group :: "string list"
  p_allow_comments :: bool
  p_meta :: "string list option"

text \<open>A processed token; the empty dictionary \<^verbatim>\<open>{}\<close> is \<open>None\<close>.\<close>

record ptoken =
  pt_contents :: contents
  pt_type :: TokenType
  pt_existing_params :: params

text \<open>
  The configuration the constructors leave: \<^verbatim>\<open>BaseConverter.__init__\<close>, then
  \<^verbatim>\<open>JSConverter.__init__\<close> or \<^verbatim>\<open>JSONConverter.__init__\<close> with its default
  \<^verbatim>\<open>json_spaces=4\<close>. Only the JSON converter has the entry \<^verbatim>\<open>json_space\<close>; the other
  two never read it.
\<close>

definition BaseConverter_init :: config where
  "BaseConverter_init = \<lparr>outfile_type = ''.txt'', cfg_allow_comments = True, json_space = [],
     header_fields = Map.empty\<rparr>"

definition JSConverter_init :: config where
  "JSConverter_init = BaseConverter_init\<lparr>outfile_type := ''.js''\<rparr>"

definition JSONConverter_init :: config where
  "JSONConverter_init = BaseConverter_init\<lparr>outfile_type := ''.json'', cfg_allow_comments := False,
     json_space := replicate 4 (CHR '' '')\<rparr>"

definition STARTGROUP_TAG :: string where "STARTGROUP_TAG = ''startgroup''"
definition ENDGROUP_TAG :: string where "ENDGROUP_TAG = ''endgroup''"
definition END_HEADER_MARKER :: string where "END_HEADER_MARKER = ''endhead''"
definition REQUIRED_HEADER_FIELDS :: "string list" where "REQUIRED_HEADER_FIELDS = [''dialect'']"

text \<open>\<^verbatim>\<open>r'.*?(EXCLUDE|MULTILINE)|(OUTPUT\s*:\s*(?:.*)).*'\<close> with \<^verbatim>\<open>re.I|re.M|re.S\<close>\<close>

definition RAW_META_COMMENT_REGEX :: regex where
  "RAW_META_COMMENT_REGEX =
     Alt (Seq (StarLazy DotAll) (Group ''1'' (Alt (liti ''EXCLUDE'') (liti ''MULTILINE''))))
         (Seq (Group ''2'' (Seq (liti ''OUTPUT'') (Seq (Star Space) (Seq (Cls (Lit (CHR '':'')))
                 (Seq (Star Space) (Star DotAll))))))
              (Star DotAll))"

text \<open>\<^verbatim>\<open>r'\s*(?P<tag>OUTPUT)\s*:\s*(?P<value>.*)'\<close> with \<^verbatim>\<open>re.I\<close>\<close>

definition META_OUTPUT_REGEX :: regex where
  "META_OUTPUT_REGEX =
     Seq (Star Space) (Seq (Group ''tag'' (liti ''OUTPUT'')) (Seq (Star Space)
       (Seq (Cls (Lit (CHR '':''))) (Seq (Star Space) (Group ''value'' (Star Dot))))))"

text \<open>The pattern of the statement flattening, \<^verbatim>\<open>r'(\s+)|(\s*--\s*.*\s+)'\<close>\<close>

definition SQL_FLATTEN_REGEX :: regex where
  "SQL_FLATTEN_REGEX =
     Alt (Group ''1'' (Plus Space))
         (Group ''2'' (Seq (Star Space) (Seq (lit ''--'') (Seq (Star Space)
            (Seq (Star Dot) (Plus Space))))))"

definition flatten :: "'a list list \<Rightarrow> 'a list" where
  "flatten big_list = concat big_list"

text \<open>The loop of \<^verbatim>\<open>index_containing_substring\<close>, from index \<open>i\<close> on.\<close>

fun index_from :: "int \<Rightarrow> string list \<Rightarrow> string \<Rightarrow> int" where
  "index_from i [] substring = - 1"
| "index_from i (s # the_list) substring =
     (if substring_in substring (lower s) then i else index_from (i + 1) the_list substring)"

definition index_containing_substring :: "string list \<Rightarrow> string \<Rightarrow> int" where
  "index_containing_substring the_list substring = index_from 0 the_list substring"

text \<open>\<^verbatim>\<open>xs.pop(i)\<close>: the element at \<open>i\<close> (from the end when \<open>i\<close> is negative) and the list
  without it.\<close>

definition pop_at :: "'a list \<Rightarrow> int \<Rightarrow> error + ('a \<times> 'a list)" where
  "pop_at xs i =
     (if 0 \<le> i \<and> i < int (length xs)
      then Inr (xs ! nat i, take (nat i) xs @ drop (Suc (nat i)) xs)
      else if i < 0 \<and> - int (length xs) \<le> i
      then Inr (xs ! nat (int (length xs) + i),
                take (nat (int (length xs) + i)) xs @ drop (Suc (nat (int (length xs) + i))) xs)
      else Inl IndexError)"

text \<open>
  \<^verbatim>\<open>x in it\<close> for an iterator \<open>it\<close>: the items are drawn until one equals \<open>x\<close>; the
  result comes with what the iterator has left.
\<close>

fun iter_contains :: "string \<Rightarrow> string list \<Rightarrow> bool \<times> string list" where
  "iter_contains x [] = (False, [])"
| "iter_contains x (y # ys) = (if y = x then (True, ys) else iter_contains x ys)"

section \<open>The lexer: \<^verbatim>\<open>tokenizer\<close>\<close>

definition LINE_COMMENT_START :: string where "LINE_COMMENT_START = ''--''"
definition BLOCK_COMMENT_START :: string where "BLOCK_COMMENT_START = ''/*''"
definition BLOCK_COMMENT_END :: string where "BLOCK_COMMENT_END = ''*/''"
definition SQL_END :: string where "SQL_END = '';''"

definition SQL_STARTERS :: "string list" where
  "SQL_STARTERS = [''SELECT'', ''PREPARE'', ''CREATE'', ''DROP'', ''WITH'', ''EXECUTE'', ''RAISE'']"

text \<open>Sequences of more than two patterns.\<close>

definition seqs :: "regex list \<Rightarrow> regex" where
  "seqs rs = foldr Seq rs Eps"

text \<open>
  \<^verbatim>\<open>r'\s*--\s*(?P<tag>{})\s*:\s*(?P<value>.*)'\<close> with \<^verbatim>\<open>re.I\<close>, the braces filled with the
  header fields joined by \<^verbatim>\<open>|\<close>. The fields are a Python set, whose order is not fixed; no
  field is a prefix of another, so the order of the alternatives does not matter.
\<close>

definition HEADER_REGEX :: regex where
  "HEADER_REGEX = seqs [Star Space, lit ''--'', Star Space,
     Group ''tag'' (Alt (liti ''version'') (Alt (liti ''output'') (Alt (liti ''dialect'') (liti ''endhead'')))),
     Star Space, Cls (Lit (CHR '':'')), Star Space, Group ''value'' (Star Dot)]"

text \<open>\<^verbatim>\<open>r'\s*--\s+(?P<contents>.*)$'\<close> with \<^verbatim>\<open>re.I\<close>\<close>

definition LINE_COMMENT_REGEX :: regex where
  "LINE_COMMENT_REGEX = seqs [Star Space, lit ''--'', Plus Space, Group ''contents'' (Star Dot), Eos]"

text \<open>\<^verbatim>\<open>r'\s*/\*\s*(?P<tag>startgroup|endgroup)\s*:\s*(?P<name>.*?)\s*(?::\s*OUTPUT\s*:\s*(?P<output>.*?))?\s*\*/\s*$'\<close>
  with \<^verbatim>\<open>re.I\<close>\<close>

definition GROUP_REGEX :: regex where
  "GROUP_REGEX = seqs [Star Space, lit ''/*'', Star Space,
     Group ''tag'' (Alt (liti ''startgroup'') (liti ''endgroup'')),
     Star Space, Cls (Lit (CHR '':'')), Star Space, Group ''name'' (StarLazy Dot), Star Space,
     Opt (seqs [Cls (Lit (CHR '':'')), Star Space, liti ''OUTPUT'', Star Space, Cls (Lit (CHR '':'')),
                Star Space, Group ''output'' (StarLazy Dot)]),
     Star Space, lit ''*/'', Star Space, Eos]"

text \<open>\<^verbatim>\<open>r'\s*/*\*\s*(?P<contents>.*?)\s*\*/\s*'\<close> with \<^verbatim>\<open>re.I|re.S\<close>\<close>

definition BLOCK_COMMENT_REGEX :: regex where
  "BLOCK_COMMENT_REGEX = seqs [Star Space, Star (Lit (CHR ''/'')), Cls (Lit (CHR ''*'')), Star Space,
     Group ''contents'' (StarLazy DotAll), Star Space, lit ''*/'', Star Space]"

text \<open>\<^verbatim>\<open>r'/*.*?(EXCLUDE|MULTILINE)|(OUTPUT\s*:\s*(?:.*)).*\*/'\<close> with \<^verbatim>\<open>re.I|re.M|re.S\<close>\<close>

definition META_COMMENT_REGEX :: regex where
  "META_COMMENT_REGEX =
     Alt (seqs [Star (Lit (CHR ''/'')), StarLazy DotAll,
                Group ''1'' (Alt (liti ''EXCLUDE'') (liti ''MULTILINE''))])
         (seqs [Group ''2'' (seqs [liti ''OUTPUT'', Star Space, Cls (Lit (CHR '':'')), Star Space,
                                   Star DotAll]),
                Star DotAll, lit ''*/''])"

subsection \<open>\<^verbatim>\<open>inspect.cleandoc\<close>\<close>

text \<open>\<^verbatim>\<open>s.expandtabs()\<close>, from column \<open>col\<close>: a tab fills up to the next multiple of 8.\<close>

fun expandtabs_from :: "nat \<Rightarrow> string \<Rightarrow> string" where
  "expandtabs_from col [] = []"
| "expandtabs_from col (c # cs) =
     (if c = CHR 0x09 then replicate (8 - col mod 8) (CHR '' '') @ expandtabs_from 0 cs
      else if c = CHR 0x0A \<or> c = CHR 0x0D then c # expandtabs_from 0 cs
      else c # expandtabs_from (Suc col) cs)"

text \<open>\<^verbatim>\<open>s.split('\n')\<close> and \<^verbatim>\<open>sep.join(parts)\<close>\<close>

fun split_lines :: "string \<Rightarrow> string list" where
  "split_lines [] = [[]]"
| "split_lines (c # cs) =
     (if c = CHR 0x0A then [] # split_lines cs
      else (case split_lines cs of l # ls \<Rightarrow> (c # l) # ls | [] \<Rightarrow> [[c]]))"

fun join_with :: "string \<Rightarrow> string list \<Rightarrow> string" where
  "join_with sep [] = []"
| "join_with sep [x] = x"
| "join_with sep (x # y # ys) = x @ sep @ join_with sep (y # ys)"

text \<open>The smallest indentation of the lines that are not blank, \<open>None\<close> for
  \<^verbatim>\<open>sys.maxsize\<close>.\<close>

fun margin_of :: "string list \<Rightarrow> nat option" where
  "margin_of [] = None"
| "margin_of (line # lines) =
     (let content = length (lstrip line)
      in if content \<noteq> 0
         then (case margin_of lines of
                 None \<Rightarrow> Some (length line - content)
               | Some m \<Rightarrow> Some (min m (length line - content)))
         else margin_of lines)"

definition cleandoc :: "string \<Rightarrow> string" where
  "cleandoc doc =
     (let lines = split_lines (expandtabs_from 0 doc);
          margin = margin_of (tl lines);
          lines1 = (case lines of [] \<Rightarrow> [] | l # ls \<Rightarrow> lstrip l # ls);
          lines2 = (case margin of
                      None \<Rightarrow> lines1
                    | Some m \<Rightarrow> (case lines1 of [] \<Rightarrow> [] | l # ls \<Rightarrow> l # map (drop m) ls));
          lines3 = rev (dropWhile (\<lambda>l. l = []) (rev lines2));
          lines4 = dropWhile (\<lambda>l. l = []) lines3
      in join_with [CHR 0x0A] lines4)"

subsection \<open>The generator\<close>

text \<open>
  \<^verbatim>\<open>block.append(next(file))\<close> until the line just read satisfies \<open>P\<close>: the lines read
  and the lines left, or \<open>None\<close> when the file ends first.
\<close>

fun read_until :: "(string \<Rightarrow> bool) \<Rightarrow> string list \<Rightarrow> (string list \<times> string list) option" where
  "read_until P [] = None"
| "read_until P (l # ls) =
     (if P l then Some ([l], ls)
      else (case read_until P ls of None \<Rightarrow> None | Some (b, r) \<Rightarrow> Some (l # b, r)))"

lemma read_until_shorter: "read_until P ls = Some (b, r) \<Longrightarrow> length r < length ls"
  by (induction ls arbitrary: b) (auto split: if_splits option.splits)

text \<open>\<^verbatim>\<open>line.lstrip().split(' ', 1)[0]\<close>\<close>

definition first_word :: "string \<Rightarrow> string" where
  "first_word line = takeWhile (\<lambda>c. c \<noteq> CHR '' '') (lstrip line)"

text \<open>\<^verbatim>\<open>yield\<close>: the token comes before what the generator does next.\<close>

definition yield :: "Token \<Rightarrow> Token list \<times> error option \<Rightarrow> Token list \<times> error option" where
  "yield t r = (t # fst r, snd r)"

text \<open>
  The file is the list of its lines, each with its line break. The result is the tokens the
  generator yields and the exception that ends it, if one does. When the file ends,
  \<^verbatim>\<open>next(file)\<close> raises \<^verbatim>\<open>StopIteration\<close> inside the generator, also in the middle of a
  block; where the program runs to its end (Python 3.6, the first version with \<^verbatim>\<open>enum.auto\<close>
  and the last in which this is not an error) that ends the generator.
  Subscripting the \<open>None\<close> of a pattern that does not match raises \<^verbatim>\<open>TypeError\<close>.
\<close>

function tokenizer :: "string list \<Rightarrow> Token list \<times> error option" where
  "tokenizer [] = ([], None)"
| "tokenizer (line # file) =
     (if strip line = [] then tokenizer file
      else if startswith (lstrip line) LINE_COMMENT_START then
        (case re_match HEADER_REGEX line of
           Some header \<Rightarrow>
             (case (group_of header ''tag'', group_of header ''value'') of
                (Some tag, Some val) \<Rightarrow>
                  yield \<lparr>type = HEADER, contents = HeaderDict tag val\<rparr> (tokenizer file)
              | _ \<Rightarrow> ([], Some TypeError))
         | None \<Rightarrow>
             (case re_match LINE_COMMENT_REGEX line of
                None \<Rightarrow> ([], Some TypeError)
              | Some m \<Rightarrow>
                  (case group_of m ''contents'' of
                     Some c \<Rightarrow> yield \<lparr>type = LINE_COMMENT, contents = Text c\<rparr> (tokenizer file)
                   | None \<Rightarrow> ([], Some TypeError))))
      else if startswith (lstrip line) BLOCK_COMMENT_START then
        (if endswith (rstrip line) BLOCK_COMMENT_END then
           (case re_match GROUP_REGEX line of
              Some grp \<Rightarrow>
                (case (group_of grp ''tag'', group_of grp ''name'') of
                   (Some tag, Some name) \<Rightarrow>
                     yield \<lparr>type = GROUP_TAG, contents = GroupDict tag name (group_of grp ''output'')\<rparr>
                       (tokenizer file)
                 | _ \<Rightarrow> ([], Some TypeError))
            | None \<Rightarrow>
                (case re_match BLOCK_COMMENT_REGEX line of
                   None \<Rightarrow> ([], Some TypeError)
                 | Some m \<Rightarrow>
                     (case group_of m ''contents'' of
                        Some c \<Rightarrow> yield \<lparr>type = BLOCK_COMMENT, contents = Text c\<rparr> (tokenizer file)
                      | None \<Rightarrow> ([], Some TypeError))))
         else
           (case read_until (\<lambda>l. endswith (strip l) BLOCK_COMMENT_END) file of
              None \<Rightarrow> ([], None)
            | Some (block, file1) \<Rightarrow>
                (let join_block = concat (line # block);
                     meta_list = re_search META_COMMENT_REGEX join_block
                 in case re_match BLOCK_COMMENT_REGEX join_block of
                      None \<Rightarrow> ([], Some TypeError)
                    | Some m \<Rightarrow>
                        (case group_of m ''contents'' of
                           None \<Rightarrow> ([], Some TypeError)
                         | Some c \<Rightarrow>
                             if meta_list \<noteq> None
                             then yield \<lparr>type = META_COMMENT, contents = Text (cleandoc c)\<rparr>
                                    (tokenizer file1)
                             else yield \<lparr>type = BLOCK_COMMENT, contents = Text (cleandoc c)\<rparr>
                                    (tokenizer file1)))))
      else if first_word line \<in> set SQL_STARTERS then
        (if endswith (rstrip line) SQL_END then
           yield \<lparr>type = SQL, contents = Text (strip line)\<rparr> (tokenizer file)
         else
           (case read_until (\<lambda>l. endswith (rstrip l) SQL_END) file of
              None \<Rightarrow> ([], None)
            | Some (block, file1) \<Rightarrow>
                yield \<lparr>type = SQL, contents = Text (cleandoc (join_with '' '' (line # block)))\<rparr>
                  (tokenizer file1)))
      else tokenizer file)"
  by pat_completeness auto
termination
  by (relation "measure length") (auto dest: read_until_shorter)

section \<open>The context engine: \<^verbatim>\<open>BaseConverter.process_token\<close>\<close>

text \<open>
  The block under \<^verbatim>\<open>if output_provided != -1\<close>: the \<^verbatim>\<open>OUTPUT\<close> item is popped from
  \<^verbatim>\<open>raw_meta\<close>, its value is joined to the current output path without its extension, and
  \<^verbatim>\<open>'clear_out'\<close> is appended. Subscripting the \<open>None\<close> of a failed match is a
  \<^verbatim>\<open>TypeError\<close>.
\<close>

definition redirect_output ::
  "config \<Rightarrow> params \<Rightarrow> string list \<Rightarrow> int \<Rightarrow> error + (params \<times> string list)" where
  "redirect_output cfg existing_params raw_meta output_provided =
     (case pop_at raw_meta output_provided of
        Inl e \<Rightarrow> Inl e
      | Inr (item, raw_meta1) \<Rightarrow>
          (case re_match META_OUTPUT_REGEX item of
             None \<Rightarrow> Inl TypeError
           | Some m \<Rightarrow>
               (case group_of m ''value'' of
                  None \<Rightarrow> Inl TypeError
                | Some new_output \<Rightarrow>
                    (let (base, ext) = splitext (p_output existing_params)
                     in Inr (existing_params\<lparr>p_output :=
                               join base (new_output @ (if ext \<noteq> [] then ext else outfile_type cfg))\<rparr>,
                             raw_meta1 @ [''clear_out''])))))"

text \<open>
  The meta-comment branch up to the call of \<^verbatim>\<open>next\<close>: the directives are read from the
  comment, an \<^verbatim>\<open>OUTPUT\<close> directive redirects the output path, and the directives are stored
  lower-cased, empty strings dropped, under \<^verbatim>\<open>'meta'\<close>.
\<close>

definition meta_params :: "config \<Rightarrow> params \<Rightarrow> string \<Rightarrow> error + params" where
  "meta_params cfg existing_params c =
     (let raw_meta = flatten (findall RAW_META_COMMENT_REGEX [''1'', ''2''] c);
          output_provided = index_containing_substring raw_meta ''output''
      in case (if output_provided \<noteq> - 1
               then redirect_output cfg existing_params raw_meta output_provided
               else Inr (existing_params, raw_meta)) of
           Inl e \<Rightarrow> Inl e
         | Inr (existing_params1, raw_meta1) \<Rightarrow>
             Inr (existing_params1\<lparr>p_meta := Some (map lower (filter (\<lambda>x. x \<noteq> []) raw_meta1))\<rparr>))"

text \<open>The message of the \<^verbatim>\<open>ValueError\<close> raised when the token after a meta comment is not
  SQL.\<close>

definition meta_misplaced :: "TokenType \<Rightarrow> string" where
  "meta_misplaced t =
     ''Meta comment not preceeding sql token. meta token followed by '' @ type_name t @ '' token.''"

text \<open>
  \<open>process_token cfg token existing_params source\<close> returns the processed token, the
  parameters, and what is left of \<^verbatim>\<open>self.token_source\<close>, from which a meta comment draws
  the statement that follows it. A dictionary copied by \<^verbatim>\<open>deepcopy\<close> is a value here.
\<close>

function process_token ::
  "config \<Rightarrow> Token \<Rightarrow> params \<Rightarrow> Token list \<Rightarrow> error + (ptoken option \<times> params \<times> Token list)" where
  "process_token cfg token existing_params source =
     (if type token = LINE_COMMENT \<or> type token = BLOCK_COMMENT then
        (if p_allow_comments existing_params
         then Inr (Some \<lparr>pt_contents = contents token, pt_type = type token,
                         pt_existing_params = existing_params\<rparr>, existing_params, source)
         else Inr (None, existing_params, source))
      else if type token = GROUP_TAG then
        (case contents token of
           GroupDict tag name out \<Rightarrow>
             if lower tag = STARTGROUP_TAG then
               (let existing_params1 =
                      (if out \<noteq> None \<and> out \<noteq> Some [] then
                         existing_params\<lparr>p_output :=
                           normcase (join (dirname (p_output existing_params))
                                          ((case out of Some v \<Rightarrow> v | None \<Rightarrow> []) @ outfile_type cfg))\<rparr>
                       else if snd (splitext (p_output existing_params)) = [] then
                         existing_params\<lparr>p_output :=
                           join (p_output existing_params) (''default'' @ outfile_type cfg)\<rparr>
                       else existing_params);
                    existing_params2 = existing_params1\<lparr>p_group := p_group existing_params1 @ [name]\<rparr>
                in Inr (Some \<lparr>pt_contents = contents token, pt_type = type token,
                               pt_existing_params = existing_params2\<rparr>, existing_params2, source))
             else
               (if p_group existing_params = [] then Inl IndexError
                else
                  (let existing_params1 = existing_params\<lparr>p_group := butlast (p_group existing_params)\<rparr>
                   in if p_group existing_params1 = [] then
                        (let contents1 = GroupDict tag name (Some (p_output existing_params1));
                             existing_params2 = existing_params1\<lparr>p_output :=
                               join (dirname (p_output existing_params1)) (''default'' @ outfile_type cfg)\<rparr>
                         in Inr (Some \<lparr>pt_contents = contents1, pt_type = type token,
                                        pt_existing_params = existing_params2\<rparr>, existing_params2, source))
                      else
                        (let existing_params2 = existing_params1\<lparr>p_output :=
                               dirname (p_output existing_params1) @ outfile_type cfg\<rparr>
                         in Inr (Some \<lparr>pt_contents = contents token, pt_type = type token,
                                        pt_existing_params = existing_params2\<rparr>, existing_params2, source))))
         | _ \<Rightarrow> Inl TypeError)
      else if type token = META_COMMENT then
        (case contents token of
           Text c \<Rightarrow>
             (case meta_params cfg existing_params c of
                Inl e \<Rightarrow> Inl e
              | Inr existing_params2 \<Rightarrow>
                  (case source of
                     [] \<Rightarrow> Inl StopIteration
                   | sql_token # source1 \<Rightarrow>
                       if type sql_token \<noteq> SQL then
                         Inl (ValueError (meta_misplaced (type sql_token)))
                       else process_token cfg sql_token existing_params2 source1))
         | _ \<Rightarrow> Inl TypeError)
      else if type token = SQL then
        (case contents token of
           Text c \<Rightarrow>
             (let meta0 = (case p_meta existing_params of Some it \<Rightarrow> it | None \<Rightarrow> []);
                  existing_params1 = existing_params\<lparr>p_meta := None\<rparr>;
                  formatted_sql = strip (re_sub SQL_FLATTEN_REGEX '' '' c);
                  (excluded, meta1) = iter_contains ''exclude'' meta0;
                  (multiline, meta2) =
                     (if excluded then (False, meta1) else iter_contains ''multiline'' meta1);
                  processed_token1 = (None :: ptoken option);
                  formatted_sql1 = (if multiline then strip c else formatted_sql);
                  (clear_out, meta3) = iter_contains ''clear_out'' meta2;
                  processed_token2 = Some \<lparr>pt_contents = Text formatted_sql1, pt_type = type token,
                                             pt_existing_params = existing_params1\<rparr>
              in Inr (processed_token2, existing_params1, source))
         | _ \<Rightarrow> Inl TypeError)
      else Inl (ValueError ''Unknown Token''))"
  by pat_completeness auto
termination
  by (relation "measure (\<lambda>(cfg, token, existing_params, source).
        if type token = META_COMMENT then 1 else 0)") auto

text \<open>
  The loop of \<^verbatim>\<open>process_tokens\<close> over \<^verbatim>\<open>self.token_source\<close>, after the header: the
  processed tokens it yields, and the exception that ends it, if one does. 
\<close>

function process_loop :: "config \<Rightarrow> params \<Rightarrow> Token list \<Rightarrow> ptoken list \<times> error option" where
  "process_loop cfg pre_existing_params [] = ([], None)"
| "process_loop cfg pre_existing_params (token # source) =
     (case process_token cfg token pre_existing_params source of
        Inl e \<Rightarrow> ([], Some e)
      | Inr (processed_token, pre_existing_params1, source1) \<Rightarrow>
          (let (rest, err) = process_loop cfg pre_existing_params1 source1
           in ((case processed_token of Some pt \<Rightarrow> [pt] | None \<Rightarrow> []) @ rest, err)))"
  by pat_completeness auto
termination
proof (relation "measure (\<lambda>(cfg, ps, source). length source)")
  show "wf (measure (\<lambda>(cfg, ps, source). length source))" by simp
next
  fix cfg :: config and pre_existing_params :: params and token :: Token
    and source :: "Token list" and x2 x1 x2a x1a x2b
  assume "process_token cfg token pre_existing_params source = Inr x2"
    and "(x1, x2a) = x2" and "(x1a, x2b) = x2a"
  then have "process_token cfg token pre_existing_params source = Inr (x1, x1a, x2b)" by simp
  then have "length x2b \<le> length source"
    by (auto simp: Let_def split: if_splits contents.splits sum.splits prod.splits list.splits)
  then show "((cfg, x1a, x2b), cfg, pre_existing_params, token # source)
       \<in> measure (\<lambda>(cfg, ps, source). length source)" by simp
qed

section \<open>The header: \<^verbatim>\<open>BaseConverter.process_header\<close>\<close>

text \<open>The \<^verbatim>\<open>while not done\<close> loop; \<^verbatim>\<open>next\<close> on the exhausted source raises
  \<^verbatim>\<open>StopIteration\<close>.\<close>

fun header_loop :: "config \<Rightarrow> Token list \<Rightarrow> error + (config \<times> Token list)" where
  "header_loop cfg [] = Inl StopIteration"
| "header_loop cfg (token # source) =
     (if type token \<noteq> HEADER then header_loop cfg source
      else (case contents token of
              HeaderDict tag val \<Rightarrow>
                if lower tag \<noteq> END_HEADER_MARKER
                then header_loop (cfg\<lparr>header_fields := (header_fields cfg)(lower tag \<mapsto> val)\<rparr>) source
                else Inr (cfg, source)
            | _ \<Rightarrow> Inl TypeError))"

text \<open>\<^verbatim>\<open>key in self.config\<close>\<close>

definition in_config :: "string \<Rightarrow> config \<Rightarrow> bool" where
  "in_config key cfg =
     (key \<in> set [''outfile_type'', ''allow_comments'', ''json_space''] \<or> header_fields cfg key \<noteq> None)"

text \<open>The check of the required fields: the first one missing raises \<^verbatim>\<open>LookupError\<close>
  with the message \<^verbatim>\<open>'Missing a required field: {!r}'\<close>.\<close>

fun check_required :: "string list \<Rightarrow> config \<Rightarrow> error option" where
  "check_required [] cfg = None"
| "check_required (header # rest) cfg =
     (if \<not> in_config header cfg
      then Some (LookupError (''Missing a required field: '' @ [CHR 0x27] @ header @ [CHR 0x27]))
      else check_required rest cfg)"

text \<open>\<open>cwd\<close> is what \<^verbatim>\<open>os.getcwd()\<close> returns.\<close>

definition process_header :: "string \<Rightarrow> config \<Rightarrow> Token list \<Rightarrow> error + (config \<times> Token list)" where
  "process_header cwd cfg source =
     (case header_loop cfg source of
        Inl e \<Rightarrow> Inl e
      | Inr (cfg1, source1) \<Rightarrow>
          (let cfg2 =
                 (if in_config ''output'' cfg1
                  then cfg1\<lparr>header_fields := (header_fields cfg1)(''output'' \<mapsto>
                         normcase (case header_fields cfg1 ''output'' of Some v \<Rightarrow> v | None \<Rightarrow> []))\<rparr>
                  else cfg1\<lparr>header_fields := (header_fields cfg1)(''output'' \<mapsto> cwd)\<rparr>)
           in case check_required REQUIRED_HEADER_FIELDS cfg2 of
                Some e \<Rightarrow> Inl e
              | None \<Rightarrow> Inr (cfg2, source1)))"

text \<open>
  \<^verbatim>\<open>process_tokens\<close>: the header, then the loop. The result is the configuration as the
  header left it, the processed tokens yielded, and the exception that ended the generator.
\<close>

definition process_tokens ::
  "string \<Rightarrow> config \<Rightarrow> Token list \<Rightarrow> config \<times> ptoken list \<times> error option" where
  "process_tokens cwd cfg source =
     (case process_header cwd cfg source of
        Inl e \<Rightarrow> (cfg, [], Some e)
      | Inr (cfg1, source1) \<Rightarrow>
          (case header_fields cfg1 ''output'' of
             None \<Rightarrow> (cfg1, [], Some (ValueError
               ''could not find output configuration -- did you call process_header first?''))
           | Some out \<Rightarrow>
               (let pre_existing_params = \<lparr>p_output = out, p_group = [],
                      p_allow_comments = cfg_allow_comments cfg1, p_meta = None\<rparr>;
                    (ptokens, err) = process_loop cfg1 pre_existing_params source1
                in (cfg1, ptokens, err))))"

text \<open>A header line of the segment \<open>hdr\<close> sets the field \<open>key\<close>.\<close>

definition sets_field :: "string \<Rightarrow> Token list \<Rightarrow> bool" where
  "sets_field key hdr =
     list_ex (\<lambda>t. type t = HEADER \<and>
        (case contents t of HeaderDict tag val \<Rightarrow> lower tag = key | _ \<Rightarrow> False)) hdr"

text \<open>Every header line of the segment carries its \<^verbatim>\<open>groupdict()\<close> and is not the terminator.\<close>

definition header_segment :: "Token list \<Rightarrow> bool" where
  "header_segment hdr =
     list_all (\<lambda>t. type t \<noteq> HEADER \<or>
        (case contents t of HeaderDict tag val \<Rightarrow> lower tag \<noteq> END_HEADER_MARKER | _ \<Rightarrow> False)) hdr"

section \<open>Vocabulary of the statements about groups\<close>

text \<open>What \<open>dirname\<close> returns: empty, or slashes only, or a path that does not end in a slash.\<close>

definition dir_form :: "string \<Rightarrow> bool" where
  "dir_form d \<longleftrightarrow> d = [] \<or> d = replicate (length d) (CHR ''/'') \<or> last d \<noteq> CHR ''/''"

text \<open>The file extensions of the converters: a dot is in them, a slash is not.\<close>

definition is_extension :: "string \<Rightarrow> bool" where
  "is_extension t \<longleftrightarrow> CHR ''.'' \<in> set t \<and> CHR ''/'' \<notin> set t"

text \<open>Group tags that open and close a group, a group tag without an \<^verbatim>\<open>OUTPUT\<close> part, and
  the tokens that change neither the path nor the stack: statements and comments.\<close>

definition is_startgroup :: "Token \<Rightarrow> bool" where
  "is_startgroup t =
     (type t = GROUP_TAG \<and>
      (case contents t of GroupDict tag name out \<Rightarrow> lower tag = STARTGROUP_TAG | _ \<Rightarrow> False))"

definition is_endgroup :: "Token \<Rightarrow> bool" where
  "is_endgroup t =
     (type t = GROUP_TAG \<and>
      (case contents t of GroupDict tag name out \<Rightarrow> lower tag = ENDGROUP_TAG | _ \<Rightarrow> False))"

definition no_override :: "Token \<Rightarrow> bool" where
  "no_override t =
     (case contents t of GroupDict tag name out \<Rightarrow> out = None \<or> out = Some [] | _ \<Rightarrow> False)"

definition plain_tokens :: "Token list \<Rightarrow> bool" where
  "plain_tokens body =
     list_all (\<lambda>t. (type t = SQL \<or> type t = LINE_COMMENT \<or> type t = BLOCK_COMMENT) \<and>
                    (case contents t of Text c \<Rightarrow> True | _ \<Rightarrow> False)) body"

section \<open>The flattening of a statement, as specified\<close>

text \<open>
  The flattening as the specification words it: every run of whitespace, line breaks
  included, becomes one space, and the whitespace at both ends is stripped.
\<close>

function spec_squeeze :: "string \<Rightarrow> string" where
  "spec_squeeze [] = []"
| "spec_squeeze (c # cs) =
     (if isspace c then CHR '' '' # spec_squeeze (dropWhile isspace cs) else c # spec_squeeze cs)"
  by pat_completeness auto
termination
  by (relation "measure length") (auto simp: length_dropWhile_le less_Suc_eq_le)

definition spec_collapse_whitespace :: "string \<Rightarrow> string" where
  "spec_collapse_whitespace s = strip (spec_squeeze s)"

section \<open>Properties of the context engine\<close>

































lemma lower_ENDGROUP: "lower ''ENDGROUP'' = ENDGROUP_TAG"
  by (simp add: lower_def lower_char_def upper_letters_def lower_letters_def ENDGROUP_TAG_def)

text \<open>
  C7. In a context whose group stack is empty, processing an end-group token fails: the
  \<^verbatim>\<open>pop\<close> of the empty list raises \<^verbatim>\<open>IndexError\<close>, and no context is returned.
\<close>

theorem endgroup_on_empty_stack_fails:
  assumes "type token = GROUP_TAG"
    and "contents token = GroupDict tag name out"
    and "lower tag = ENDGROUP_TAG"
    and "p_group existing_params = []"
  shows "process_token cfg token existing_params source = Inl IndexError"
proof -
  have "lower tag \<noteq> STARTGROUP_TAG"
    using assms(3) by (simp add: ENDGROUP_TAG_def STARTGROUP_TAG_def)
  with assms show ?thesis
    by (simp add: Let_def)
qed

theorem endgroup_on_empty_stack_fails_witness:
  "process_token JSONConverter_init
     \<lparr>type = GROUP_TAG, contents = GroupDict ''ENDGROUP'' ''users'' None\<rparr>
     \<lparr>p_output = ''out'', p_group = [], p_allow_comments = False, p_meta = None\<rparr> []
   = Inl IndexError"
  by (rule endgroup_on_empty_stack_fails[where tag = "''ENDGROUP''" and name = "''users''" and out = None])
     (simp_all add: lower_ENDGROUP)



lemma meta_params_EXCLUDE:
  "meta_params cfg existing_params ''EXCLUDE'' = Inr (existing_params\<lparr>p_meta := Some [''exclude'']\<rparr>)"
proof -
  have 1: "flatten (findall RAW_META_COMMENT_REGEX [''1'', ''2''] ''EXCLUDE'') = [''EXCLUDE'', []]"
    by code_simp
  have 2: "index_containing_substring [''EXCLUDE'', []] ''output'' = - 1" by code_simp
  have 3: "map lower (filter (\<lambda>x. x \<noteq> []) [''EXCLUDE'', []]) = [''exclude'']" by code_simp
  show ?thesis unfolding meta_params_def 1 Let_def 2 using 3 by simp
qed

text \<open>
  C1 (the code departs from the claim). A statement that follows the meta comment
  \<^verbatim>\<open>EXCLUDE\<close> is emitted all the same: the branch \<^verbatim>\<open>if 'exclude' in meta\<close> sets
  \<^verbatim>\<open>processed_token = {}\<close>, and the assignment that ends the SQL branch overwrites it with the
  full processed token. Whatever the statement \<open>s\<close>, the configuration and the context,
  the call returns a processed token carrying the flattened statement; only the clearing of
  \<^verbatim>\<open>'meta'\<close> is as the claim says.
\<close>

theorem excluded_statement_is_emitted:
  "process_token cfg \<lparr>type = META_COMMENT, contents = Text ''EXCLUDE''\<rparr> existing_params
     (\<lparr>type = SQL, contents = Text s\<rparr> # source) =
   Inr (Some \<lparr>pt_contents = Text (strip (re_sub SQL_FLATTEN_REGEX '' '' s)), pt_type = SQL,
               pt_existing_params = existing_params\<lparr>p_meta := None\<rparr>\<rparr>,
        existing_params\<lparr>p_meta := None\<rparr>, source)"
  by (simp add: meta_params_EXCLUDE Let_def)

text \<open>
  C3 (the code departs from the claim). After the meta comment \<^verbatim>\<open>OUTPUT: admin\<close> the
  redirected path stays in the context: the branch \<^verbatim>\<open>if 'clear_out' in meta\<close> is a
  \<^verbatim>\<open>pass\<close>. In a group whose output path is \<^verbatim>\<open>out/default.json\<close>, both the statement
  that follows the comment and the statement after it carry \<^verbatim>\<open>out/default/admin.json\<close>.
\<close>

theorem output_redirection_persists:
  "process_loop JSONConverter_init
     \<lparr>p_output = ''out/default.json'', p_group = [''users''], p_allow_comments = False, p_meta = None\<rparr>
     [\<lparr>type = META_COMMENT, contents = Text ''OUTPUT: admin''\<rparr>,
      \<lparr>type = SQL, contents = Text ''PREPARE a AS SELECT 1;''\<rparr>,
      \<lparr>type = SQL, contents = Text ''PREPARE b AS SELECT 2;''\<rparr>] =
   ([\<lparr>pt_contents = Text ''PREPARE a AS SELECT 1;'', pt_type = SQL,
       pt_existing_params = \<lparr>p_output = ''out/default/admin.json'', p_group = [''users''],
          p_allow_comments = False, p_meta = None\<rparr>\<rparr>,
     \<lparr>pt_contents = Text ''PREPARE b AS SELECT 2;'', pt_type = SQL,
       pt_existing_params = \<lparr>p_output = ''out/default/admin.json'', p_group = [''users''],
          p_allow_comments = False, p_meta = None\<rparr>\<rparr>], None)"
  by code_simp

section \<open>Properties of the header parser\<close>

lemma header_loop_segment:
  assumes "header_segment hdr"
    and "type e = HEADER" and "contents e = HeaderDict etag ev" and "lower etag = END_HEADER_MARKER"
  shows "\<exists>cfg1. header_loop cfg (hdr @ e # rest) = Inr (cfg1, rest) \<and>
           (\<forall>k. header_fields cfg1 k \<noteq> None \<longleftrightarrow> header_fields cfg k \<noteq> None \<or> sets_field k hdr)"
  using assms(1)
proof (induction hdr arbitrary: cfg)
  case Nil
  then show ?case using assms(2-4) by (simp add: sets_field_def)
next
  case (Cons t hdr)
  then have seg: "header_segment hdr" by (simp add: header_segment_def)
  show ?case
  proof (cases "type t = HEADER")
    case False
    then have "header_loop cfg ((t # hdr) @ e # rest) = header_loop cfg (hdr @ e # rest)" by simp
    moreover have "sets_field k (t # hdr) = sets_field k hdr" for k
      using False by (simp add: sets_field_def)
    ultimately show ?thesis using Cons.IH[OF seg, of cfg] by simp
  next
    case True
    then obtain tag val where tv: "contents t = HeaderDict tag val" "lower tag \<noteq> END_HEADER_MARKER"
      using Cons.prems by (auto simp: header_segment_def split: contents.splits)
    let ?cfg = "cfg\<lparr>header_fields := (header_fields cfg)(lower tag \<mapsto> val)\<rparr>"
    have "header_loop cfg ((t # hdr) @ e # rest) = header_loop ?cfg (hdr @ e # rest)"
      using True tv by simp
    moreover have "sets_field k (t # hdr) = (lower tag = k \<or> sets_field k hdr)" for k
      using True tv by (simp add: sets_field_def)
    ultimately show ?thesis using Cons.IH[OF seg, of ?cfg] by auto
  qed
qed

text \<open>
  C8. A header segment that reaches its terminator \<^verbatim>\<open>endhead\<close>, read into a configuration
  in which neither \<^verbatim>\<open>dialect\<close> nor \<^verbatim>\<open>output\<close> is set (as the constructors leave it):
  if no header line of the segment sets \<^verbatim>\<open>dialect\<close>, \<^verbatim>\<open>process_header\<close> fails with
  \<^verbatim>\<open>LookupError("Missing a required field: 'dialect'")\<close>; if one does, it succeeds, leaves
  the tokens after the terminator, and \<^verbatim>\<open>output\<close> is the working directory when no header
  line sets it.
\<close>

theorem header_requires_dialect:
  assumes "header_segment hdr"
    and "type e = HEADER" and "contents e = HeaderDict etag ev" and "lower etag = END_HEADER_MARKER"
    and "header_fields cfg ''dialect'' = None" and "header_fields cfg ''output'' = None"
  shows "(\<not> sets_field ''dialect'' hdr \<longrightarrow>
            process_header cwd cfg (hdr @ e # rest) =
              Inl (LookupError (''Missing a required field: '' @ [CHR 0x27] @ ''dialect'' @ [CHR 0x27]))) \<and>
         (sets_field ''dialect'' hdr \<longrightarrow>
            (\<exists>cfg2. process_header cwd cfg (hdr @ e # rest) = Inr (cfg2, rest) \<and>
               header_fields cfg2 ''dialect'' \<noteq> None \<and>
               header_fields cfg2 ''output'' \<noteq> None \<and>
               (\<not> sets_field ''output'' hdr \<longrightarrow> header_fields cfg2 ''output'' = Some cwd)))"
proof -
  from header_loop_segment[OF assms(1-4), of cfg rest] obtain cfg1 where
    l: "header_loop cfg (hdr @ e # rest) = Inr (cfg1, rest)" and
    f: "\<And>k. header_fields cfg1 k \<noteq> None \<longleftrightarrow> header_fields cfg k \<noteq> None \<or> sets_field k hdr"
    by blast
  have d: "header_fields cfg1 ''dialect'' \<noteq> None \<longleftrightarrow> sets_field ''dialect'' hdr"
    using f[of "''dialect''"] assms(5) by simp
  have out: "header_fields cfg1 ''output'' \<noteq> None \<longleftrightarrow> sets_field ''output'' hdr"
    using f[of "''output''"] assms(6) by simp
  show ?thesis
    using l d out
    by (auto simp: process_header_def in_config_def REQUIRED_HEADER_FIELDS_def Let_def normcase_def)
qed

theorem header_requires_dialect_witness:
  "process_header ''/work'' JSONConverter_init
      [\<lparr>type = HEADER, contents = HeaderDict ''VERSION'' ''0.0.1''\<rparr>,
       \<lparr>type = HEADER, contents = HeaderDict ''ENDHEAD'' '':''\<rparr>,
       \<lparr>type = SQL, contents = Text ''SELECT 1;''\<rparr>]
     = Inl (LookupError (''Missing a required field: '' @ [CHR 0x27] @ ''dialect'' @ [CHR 0x27]))
   \<and> (\<exists>cfg2. process_header ''/work'' JSONConverter_init
      [\<lparr>type = LINE_COMMENT, contents = Text ''queries''\<rparr>,
       \<lparr>type = HEADER, contents = HeaderDict ''Dialect'' ''postgres''\<rparr>,
       \<lparr>type = HEADER, contents = HeaderDict ''ENDHEAD'' '':''\<rparr>,
       \<lparr>type = SQL, contents = Text ''SELECT 1;''\<rparr>]
     = Inr (cfg2, [\<lparr>type = SQL, contents = Text ''SELECT 1;''\<rparr>])
     \<and> header_fields cfg2 ''output'' = Some ''/work'')"
proof -
  let ?e = "\<lparr>type = HEADER, contents = HeaderDict ''ENDHEAD'' '':''\<rparr>"
  let ?h1 = "[\<lparr>type = HEADER, contents = HeaderDict ''VERSION'' ''0.0.1''\<rparr>]"
  let ?h2 = "[\<lparr>type = LINE_COMMENT, contents = Text ''queries''\<rparr>,
              \<lparr>type = HEADER, contents = HeaderDict ''Dialect'' ''postgres''\<rparr>]"
  let ?rest = "[\<lparr>type = SQL, contents = Text ''SELECT 1;''\<rparr>]"
  have e: "type ?e = HEADER" "contents ?e = HeaderDict ''ENDHEAD'' '':''"
    "lower ''ENDHEAD'' = END_HEADER_MARKER" by code_simp+
  have c: "header_fields JSONConverter_init ''dialect'' = None"
    "header_fields JSONConverter_init ''output'' = None"
    by (simp_all add: JSONConverter_init_def BaseConverter_init_def)
  have s1: "header_segment ?h1" "\<not> sets_field ''dialect'' ?h1" by code_simp+
  have s2: "header_segment ?h2" "sets_field ''dialect'' ?h2" "\<not> sets_field ''output'' ?h2"
    by code_simp+
  from header_requires_dialect[OF s1(1) e c, of "''/work''" ?rest] s1(2)
  have 1: "process_header ''/work'' JSONConverter_init (?h1 @ ?e # ?rest) =
      Inl (LookupError (''Missing a required field: '' @ [CHR 0x27] @ ''dialect'' @ [CHR 0x27]))"
    by blast
  from header_requires_dialect[OF s2(1) e c, of "''/work''" ?rest] s2(2,3)
  have 2: "\<exists>cfg2. process_header ''/work'' JSONConverter_init (?h2 @ ?e # ?rest) = Inr (cfg2, ?rest) \<and>
      header_fields cfg2 ''output'' = Some ''/work''"
    by blast
  from 1 2 show ?thesis by simp
qed

section \<open>Properties of the group tags\<close>

lemma rfind_absent: "c \<notin> set s \<Longrightarrow> rfind s c = - 1"
  by (simp add: rfind_def)

lemma rfind_last: "c \<notin> set b \<Longrightarrow> rfind (a @ c # b) c = int (length a)"
proof -
  assume n: "c \<notin> set b"
  have "takeWhile (\<lambda>x. x \<noteq> c) (rev b @ c # rev a) = rev b"
    by (subst takeWhile_append2) (use n in auto)
  then show ?thesis by (simp add: rfind_def)
qed

lemma dirname_form: "dir_form (dirname q)"
proof -
  let ?head = "slice_to q (rfind q (CHR ''/'') + 1)"
  show ?thesis
  proof (cases "?head \<noteq> [] \<and> ?head \<noteq> replicate (length ?head) (CHR ''/'')")
    case False
    then have "dirname q = ?head" by (auto simp: dirname_def Let_def)
    then show ?thesis using False by (auto simp: dir_form_def)
  next
    case True
    let ?d = "rev (dropWhile (\<lambda>c. c = CHR ''/'') (rev ?head))"
    have d: "dirname q = ?d" using True by (auto simp: dirname_def Let_def)
    have "?d = [] \<or> last ?d \<noteq> CHR ''/''"
    proof (cases "dropWhile (\<lambda>c. c = CHR ''/'') (rev ?head)")
      case Nil
      then show ?thesis by simp
    next
      case (Cons x xs)
      then have "x \<noteq> CHR ''/''" using hd_dropWhile[of "\<lambda>c. c = CHR ''/''" "rev ?head"] by auto
      then show ?thesis using Cons by simp
    qed
    then show ?thesis using d by (auto simp: dir_form_def)
  qed
qed

lemma endswith_slash: "endswith a ''/'' \<longleftrightarrow> a \<noteq> [] \<and> last a = CHR ''/''"
  by (cases a rule: rev_cases) (auto simp: endswith_def)

lemma join_name:
  "\<not> startswith name ''/'' \<Longrightarrow> d \<noteq> [] \<Longrightarrow> last d \<noteq> CHR ''/'' \<Longrightarrow> join d name = d @ CHR ''/'' # name"
  by (simp add: join_def endswith_slash)

lemma join_name_slash:
  "\<not> startswith name ''/'' \<Longrightarrow> d = [] \<or> last d = CHR ''/'' \<Longrightarrow> join d name = d @ name"
  by (auto simp: join_def endswith_slash)

lemma dirname_join:
  assumes "dir_form d" and "CHR ''/'' \<notin> set name" and "name \<noteq> []"
  shows "dirname (join d name) = d"
proof -
  have ns: "\<not> startswith name ''/''" using assms(2,3) by (cases name) (auto simp: startswith_def)
  consider (empty) "d = []" | (slashes) "d \<noteq> []" "d = replicate (length d) (CHR ''/'')"
    | (path) "d \<noteq> []" "last d \<noteq> CHR ''/''"
    using assms(1) unfolding dir_form_def by blast
  then show ?thesis
  proof cases
    case empty
    then have "join d name = name" using ns by (simp add: join_name_slash)
    then show ?thesis using assms(2) empty by (simp add: dirname_def rfind_absent slice_to_def)
  next
    case slashes
    then obtain n where n: "d = replicate n (CHR ''/'') @ ''/''"
      by (metis length_0_conv length_Suc_conv_rev replicate_append_same replicate_Suc rev_exhaust
            append_Nil2 replicate_0 last_replicate last_snoc snoc_eq_iff_butlast) 
    then have j: "join d name = replicate n (CHR ''/'') @ CHR ''/'' # name"
      using ns by (simp add: join_name_slash)
    have "rfind (join d name) (CHR ''/'') = int n"
      unfolding j using rfind_last[OF assms(2), of "replicate n (CHR ''/'')"] by simp
    then have "slice_to (join d name) (rfind (join d name) (CHR ''/'') + 1) = d"
      using j n by (simp add: slice_to_def nat_add_distrib)
    then show ?thesis using slashes by (simp add: dirname_def Let_def)
  next
    case path
    then have j: "join d name = d @ CHR ''/'' # name" using ns by (simp add: join_name)
    have "rfind (join d name) (CHR ''/'') = int (length d)"
      unfolding j using rfind_last[OF assms(2), of d] by simp
    then have h: "slice_to (join d name) (rfind (join d name) (CHR ''/'') + 1) = d @ ''/''"
      using j by (simp add: slice_to_def nat_add_distrib)
    have "d @ ''/'' \<noteq> replicate (length (d @ ''/'')) (CHR ''/'')"
    proof
      assume "d @ ''/'' = replicate (length (d @ ''/'')) (CHR ''/'')"
      then have "set (d @ ''/'') \<subseteq> {CHR ''/''}" by (metis set_replicate_conv_if subset_refl empty_subsetI)
      then have "last d = CHR ''/''" using path(1) last_in_set by fastforce
      with path(2) show False by simp
    qed
    moreover have "rev (dropWhile (\<lambda>c. c = CHR ''/'') (rev (d @ ''/''))) = d"
      using path by (cases d rule: rev_cases) auto
    ultimately show ?thesis using h by (simp add: dirname_def Let_def)
  qed
qed


lemma join_prefix:
  assumes "dir_form d" and "CHR ''/'' \<notin> set name" and "name \<noteq> []"
  shows "\<exists>pre. join d name = pre @ name \<and> rfind (join d name) (CHR ''/'') + 1 = int (length pre)"
proof -
  have ns: "\<not> startswith name ''/''" using assms(2,3) by (cases name) (auto simp: startswith_def)
  show ?thesis
  proof (cases "d = [] \<or> last d = CHR ''/''")
    case True
    then have j: "join d name = d @ name" using ns by (simp add: join_name_slash)
    show ?thesis
    proof (cases "d = []")
      case True
      then show ?thesis using j assms(2) by (simp add: rfind_absent)
    next
      case False
      then obtain d1 where d1: "d = d1 @ ''/''" using True by (metis append_butlast_last_id)
      then have "rfind (join d name) (CHR ''/'') = int (length d1)"
        using j rfind_last[OF assms(2), of d1] by simp
      then show ?thesis using j d1 by simp
    qed
  next
    case False
    then have j: "join d name = d @ CHR ''/'' # name" using ns by (simp add: join_name)
    have "rfind (join d name) (CHR ''/'') = int (length d)"
      unfolding j using rfind_last[OF assms(2), of d] by simp
    then have "join d name = (d @ ''/'') @ name \<and>
        rfind (join d name) (CHR ''/'') + 1 = int (length (d @ ''/''))"
      using j by simp
    then show ?thesis by blast
  qed
qed

lemma splitext_stem:
  assumes "dir_form d" and "is_extension t"
    and "stem \<noteq> []" and "hd stem \<noteq> CHR ''.''" and "CHR ''/'' \<notin> set stem"
  shows "snd (splitext (join d (stem @ t))) \<noteq> []"
proof -
  let ?name = "stem @ t"
  let ?p = "join d ?name"
  have ns: "CHR ''/'' \<notin> set ?name" using assms(2,5) by (simp add: is_extension_def)
  have ne: "?name \<noteq> []" using assms(3) by simp
  from join_prefix[OF assms(1) ns ne] obtain pre where
    p: "?p = pre @ ?name" and sep: "rfind ?p (CHR ''/'') + 1 = int (length pre)"
    by auto
  from assms(2) obtain t1 t2 where t: "t = t1 @ CHR ''.'' # t2" "CHR ''.'' \<notin> set t2"
    unfolding is_extension_def by (metis split_list_last)
  have p2: "?p = (pre @ stem @ t1) @ CHR ''.'' # t2" using p t by simp
  have dot: "rfind ?p (CHR ''.'') = int (length (pre @ stem @ t1))"
    unfolding p2 by (rule rfind_last[OF t(2)])
  have gt: "rfind ?p (CHR ''.'') > rfind ?p (CHR ''/'')" using dot sep assms(3) by simp
  have "slice_from ?p (rfind ?p (CHR ''/'') + 1) = ?name"
    using p sep by (simp add: slice_from_def)
  moreover have "nat (rfind ?p (CHR ''.'') - (rfind ?p (CHR ''/'') + 1)) = length stem + length t1"
    using dot sep by simp
  ultimately have "slice_to (slice_from ?p (rfind ?p (CHR ''/'') + 1))
          (rfind ?p (CHR ''.'') - (rfind ?p (CHR ''/'') + 1)) = stem @ take (length t1) t"
    by (simp add: slice_to_def)
  moreover have "list_ex (\<lambda>c. c \<noteq> CHR ''.'') (stem @ take (length t1) t)"
    using assms(3,4) by (cases stem) auto
  ultimately have ex: "list_ex (\<lambda>c. c \<noteq> CHR ''.'')
      (slice_to (slice_from ?p (rfind ?p (CHR ''/'') + 1)) (rfind ?p (CHR ''.'') - (rfind ?p (CHR ''/'') + 1)))"
    by simp
  have "snd (splitext ?p) = slice_from ?p (rfind ?p (CHR ''.''))"
    using gt ex by (simp add: splitext_def Let_def)
  also have "\<dots> = drop (length (pre @ stem @ t1)) ((pre @ stem @ t1) @ CHR ''.'' # t2)"
    using p2 dot by (simp add: slice_from_def)
  also have "\<dots> = CHR ''.'' # t2"
    by (simp only: append_eq_conv_conj[symmetric] drop_append length_append) simp
  finally show ?thesis by simp
qed

lemma splitext_default:
  assumes "dir_form d" and "is_extension t"
  shows "snd (splitext (join d (''default'' @ t))) \<noteq> []"
  using splitext_stem[OF assms, of "''default''"] by simp


lemma params_meta_None: "p_meta ps = None \<Longrightarrow> ps\<lparr>p_meta := None\<rparr> = ps"
  by (cases ps) simp

lemma plain_token_step:
  assumes "p_meta ps = None"
    and "type t = SQL \<or> type t = LINE_COMMENT \<or> type t = BLOCK_COMMENT" and "contents t = Text c"
  shows "\<exists>pt. process_token cfg t ps src = Inr (pt, ps, src)"
  using assms by (auto simp: Let_def params_meta_None split: prod.splits)

lemma plain_tokens_loop:
  assumes "plain_tokens body" and "p_meta ps = None"
  shows "\<exists>pts. process_loop cfg ps (body @ rest) =
           (pts @ fst (process_loop cfg ps rest), snd (process_loop cfg ps rest))"
  using assms(1)
proof (induction body)
  case Nil
  have "process_loop cfg ps ([] @ rest) =
      ([] @ fst (process_loop cfg ps rest), snd (process_loop cfg ps rest))" by simp
  then show ?case by blast
next
  case (Cons t body)
  then obtain c where t: "type t = SQL \<or> type t = LINE_COMMENT \<or> type t = BLOCK_COMMENT"
      "contents t = Text c" and b: "plain_tokens body"
    by (auto simp: plain_tokens_def split: contents.splits)
  from plain_token_step[OF assms(2) t, of cfg "body @ rest"] obtain pt where
    pt: "process_token cfg t ps (body @ rest) = Inr (pt, ps, body @ rest)" by blast
  from Cons.IH[OF b] obtain pts where
    pts: "process_loop cfg ps (body @ rest) =
           (pts @ fst (process_loop cfg ps rest), snd (process_loop cfg ps rest))" by blast
  have "process_loop cfg ps ((t # body) @ rest) =
      (((case pt of Some p \<Rightarrow> [p] | None \<Rightarrow> []) @ pts) @ fst (process_loop cfg ps rest),
       snd (process_loop cfg ps rest))"
    using pt pts by simp
  then show ?case by blast
qed


lemma lower_STARTGROUP_neq: "lower tag = ENDGROUP_TAG \<Longrightarrow> lower tag \<noteq> STARTGROUP_TAG"
  by (simp add: ENDGROUP_TAG_def STARTGROUP_TAG_def)

text \<open>
  C4, as the code has it. In a context whose group stack is empty, a start-group tag without
  \<^verbatim>\<open>OUTPUT\<close> part, statements and comments, and the end-group tag are processed without
  error, and the output path after the end-group tag is the file \<^verbatim>\<open>default<outfile_type>\<close>
  in the directory of the path in effect after the start-group tag. It is the path in effect
  before the start-group tag whenever that path is already such a default file
  (\<^verbatim>\<open>join(dirname(q), 'default' + outfile_type)\<close> for some \<open>q\<close>), as it is after any
  earlier group of the top level.
\<close>

theorem group_pair_output:
  assumes "p_group ps = []" and "p_meta ps = None"
    and "is_startgroup start" and "no_override start" and "is_endgroup fin"
    and "plain_tokens body" and "is_extension (outfile_type cfg)"
  shows "\<exists>pts. process_loop cfg ps (start # body @ [fin]) = (pts, None) \<and> pts \<noteq> [] \<and>
           p_group (pt_existing_params (last pts)) = [] \<and>
           p_output (pt_existing_params (last pts)) =
             join (dirname (if snd (splitext (p_output ps)) = []
                            then join (p_output ps) (''default'' @ outfile_type cfg)
                            else p_output ps))
                  (''default'' @ outfile_type cfg) \<and>
           (p_output ps = join (dirname q) (''default'' @ outfile_type cfg) \<longrightarrow>
              p_output (pt_existing_params (last pts)) = p_output ps)"
proof -
  let ?dflt = "''default'' @ outfile_type cfg"
  let ?p1 = "if snd (splitext (p_output ps)) = [] then join (p_output ps) ?dflt else p_output ps"
  from assms(3,4) obtain tag name out where
    st: "type start = GROUP_TAG" "contents start = GroupDict tag name out"
        "lower tag = STARTGROUP_TAG" "out = None \<or> out = Some []"
    by (auto simp: is_startgroup_def no_override_def split: contents.splits)
  from assms(5) obtain tag2 name2 out2 where
    en: "type fin = GROUP_TAG" "contents fin = GroupDict tag2 name2 out2"
        "lower tag2 \<noteq> STARTGROUP_TAG"
    by (auto simp: is_endgroup_def ENDGROUP_TAG_def STARTGROUP_TAG_def split: contents.splits)
  let ?ps1 = "ps\<lparr>p_output := ?p1, p_group := [name]\<rparr>"
  let ?pt1 = "\<lparr>pt_contents = contents start, pt_type = GROUP_TAG, pt_existing_params = ?ps1\<rparr>"
  have s1: "process_token cfg start ps src = Inr (Some ?pt1, ?ps1, src)" for src
    using st assms(1) by (auto simp: Let_def)
  have m1: "p_meta ?ps1 = None" using assms(2) by simp
  let ?o2 = "join (dirname ?p1) ?dflt"
  let ?ps2 = "ps\<lparr>p_output := ?o2, p_group := []\<rparr>"
  let ?pt2 = "\<lparr>pt_contents = GroupDict tag2 name2 (Some ?p1), pt_type = GROUP_TAG,
               pt_existing_params = ?ps2\<rparr>"
  have s2: "process_token cfg fin ?ps1 [] = Inr (Some ?pt2, ?ps2, [])"
    using en by (simp add: Let_def)
  have l2: "process_loop cfg ?ps1 [fin] = ([?pt2], None)"
    using s2 by simp
  from plain_tokens_loop[OF assms(6) m1, of cfg "[fin]"] obtain pts where
    pts: "process_loop cfg ?ps1 (body @ [fin]) = (pts @ [?pt2], None)"
    using l2 by auto
  have all: "process_loop cfg ps (start # body @ [fin]) = (?pt1 # pts @ [?pt2], None)"
    using s1[of "body @ [fin]"] pts by simp
  have fixed: "?o2 = p_output ps" if q: "p_output ps = join (dirname q) ?dflt"
  proof -
    have ext: "snd (splitext (p_output ps)) \<noteq> []"
      unfolding q using splitext_default[OF dirname_form assms(7)] .
    have "CHR ''/'' \<notin> set ?dflt" using assms(7) by (simp add: is_extension_def)
    then have "dirname (p_output ps) = dirname q"
      unfolding q using dirname_join[OF dirname_form, of ?dflt q] by simp
    then show ?thesis using ext q by simp
  qed
  have "last (?pt1 # pts @ [?pt2]) = ?pt2" by simp
  then show ?thesis using all fixed by (intro exI[of _ "?pt1 # pts @ [?pt2]"]) simp
qed


theorem group_pair_output_witness:
  "\<exists>pts. process_loop JSONConverter_init
       \<lparr>p_output = ''out/default.json'', p_group = [], p_allow_comments = False, p_meta = None\<rparr>
       [\<lparr>type = GROUP_TAG, contents = GroupDict ''STARTGROUP'' ''users'' None\<rparr>,
        \<lparr>type = SQL, contents = Text ''PREPARE get_user AS SELECT 1;''\<rparr>,
        \<lparr>type = GROUP_TAG, contents = GroupDict ''ENDGROUP'' ''users'' None\<rparr>] = (pts, None) \<and>
     p_output (pt_existing_params (last pts)) = ''out/default.json''"
proof -
  let ?ps = "\<lparr>p_output = ''out/default.json'', p_group = [], p_allow_comments = False, p_meta = None\<rparr>"
  let ?start = "\<lparr>type = GROUP_TAG, contents = GroupDict ''STARTGROUP'' ''users'' None\<rparr>"
  let ?fin = "\<lparr>type = GROUP_TAG, contents = GroupDict ''ENDGROUP'' ''users'' None\<rparr>"
  let ?body = "[\<lparr>type = SQL, contents = Text ''PREPARE get_user AS SELECT 1;''\<rparr>]"
  have h: "p_group ?ps = []" "p_meta ?ps = None" "is_startgroup ?start" "no_override ?start"
    "is_endgroup ?fin" "plain_tokens ?body" "is_extension (outfile_type JSONConverter_init)"
    by code_simp+
  have q: "p_output ?ps = join (dirname ''out/default.json'') (''default'' @ outfile_type JSONConverter_init)"
    by code_simp
  from group_pair_output[OF h, of "''out/default.json''"] q
  obtain pts where "process_loop JSONConverter_init ?ps (?start # ?body @ [?fin]) = (pts, None)"
    "p_output (pt_existing_params (last pts)) = p_output ?ps"
    by blast
  then show ?thesis by auto
qed

text \<open>
  C4 as stated fails. From the bare directory \<^verbatim>\<open>out\<close> the pair leaves
  \<^verbatim>\<open>out/default.json\<close>; inside another group, from \<^verbatim>\<open>out/default.json\<close>, it leaves
  \<^verbatim>\<open>out.json\<close>.
\<close>

theorem group_pair_changes_output:
  "process_loop JSONConverter_init
       \<lparr>p_output = ''out'', p_group = [], p_allow_comments = False, p_meta = None\<rparr>
       [\<lparr>type = GROUP_TAG, contents = GroupDict ''STARTGROUP'' ''users'' None\<rparr>,
        \<lparr>type = GROUP_TAG, contents = GroupDict ''ENDGROUP'' ''users'' None\<rparr>] =
     ([\<lparr>pt_contents = GroupDict ''STARTGROUP'' ''users'' None, pt_type = GROUP_TAG,
         pt_existing_params = \<lparr>p_output = ''out/default.json'', p_group = [''users''],
            p_allow_comments = False, p_meta = None\<rparr>\<rparr>,
       \<lparr>pt_contents = GroupDict ''ENDGROUP'' ''users'' (Some ''out/default.json''), pt_type = GROUP_TAG,
         pt_existing_params = \<lparr>p_output = ''out/default.json'', p_group = [],
            p_allow_comments = False, p_meta = None\<rparr>\<rparr>], None)
   \<and> ''out/default.json'' \<noteq> ''out''
   \<and> process_loop JSONConverter_init
       \<lparr>p_output = ''out/default.json'', p_group = [''outer''], p_allow_comments = False, p_meta = None\<rparr>
       [\<lparr>type = GROUP_TAG, contents = GroupDict ''STARTGROUP'' ''inner'' None\<rparr>,
        \<lparr>type = GROUP_TAG, contents = GroupDict ''ENDGROUP'' ''inner'' None\<rparr>] =
     ([\<lparr>pt_contents = GroupDict ''STARTGROUP'' ''inner'' None, pt_type = GROUP_TAG,
         pt_existing_params = \<lparr>p_output = ''out/default.json'', p_group = [''outer'', ''inner''],
            p_allow_comments = False, p_meta = None\<rparr>\<rparr>,
       \<lparr>pt_contents = GroupDict ''ENDGROUP'' ''inner'' None, pt_type = GROUP_TAG,
         pt_existing_params = \<lparr>p_output = ''out.json'', p_group = [''outer''],
            p_allow_comments = False, p_meta = None\<rparr>\<rparr>], None)
   \<and> ''out.json'' \<noteq> ''out/default.json''"
  by code_simp

section \<open>Properties of the SQL branch\<close>

lemma greedy_hd: "\<exists>rs. greedy c s = dropWhile (cc_match c) s # rs"
  by (induction s) auto

lemma substring_in_tail: "\<not> substring_in p (x # xs) \<Longrightarrow> \<not> substring_in p xs"
  by simp

lemma substring_in_dropWhile: "\<not> substring_in p s \<Longrightarrow> \<not> substring_in p (dropWhile P s)"
  by (induction s) auto

lemma flatten_match_space:
  assumes "isspace c"
  shows "\<exists>g. re_match SQL_FLATTEN_REGEX (c # cs) = Some (dropWhile isspace cs, g)"
proof -
  obtain rs where rs: "greedy Space cs = dropWhile (cc_match Space) cs # rs"
    using greedy_hd by blast
  have "dropWhile (cc_match Space) cs = dropWhile isspace cs"
    by (rule arg_cong[of _ _ "\<lambda>P. dropWhile P cs"]) auto
  then show ?thesis
    using assms rs by (simp add: SQL_FLATTEN_REGEX_def Plus_def re_match_def)
qed

lemma flatten_no_match:
  assumes "\<not> isspace c" and "\<not> startswith (c # cs) ''--''"
  shows "re_match SQL_FLATTEN_REGEX (c # cs) = None"
  using assms
  by (auto simp: SQL_FLATTEN_REGEX_def Plus_def re_match_def lit_def startswith_def
           split: list.splits if_splits)

lemma flatten_empty: "re_match SQL_FLATTEN_REGEX [] = None"
  by code_simp

lemma re_sub_is_squeeze:
  "\<not> substring_in ''--'' s \<Longrightarrow> re_sub SQL_FLATTEN_REGEX '' '' s = spec_squeeze s"
proof (induction s rule: spec_squeeze.induct)
  case 1
  show ?case by (subst re_sub.simps) (simp add: flatten_empty)
next
  case (2 c cs)
  show ?case
  proof (cases "isspace c")
    case True
    from flatten_match_space[OF True, of cs] obtain g where
      m: "re_match SQL_FLATTEN_REGEX (c # cs) = Some (dropWhile isspace cs, g)" by blast
    have len: "length (dropWhile isspace cs) < length (c # cs)"
      by (simp add: length_dropWhile_le less_Suc_eq_le)
    have n: "\<not> substring_in ''--'' (dropWhile isspace cs)"
      using "2.prems" substring_in_dropWhile substring_in_tail by blast
    have "re_sub SQL_FLATTEN_REGEX '' '' (c # cs) =
            '' '' @ re_sub SQL_FLATTEN_REGEX '' '' (dropWhile isspace cs)"
      using m len by (subst re_sub.simps) simp
    then show ?thesis using "2.IH"(1)[OF True n] True by simp
  next
    case False
    have ns: "\<not> startswith (c # cs) ''--''" using "2.prems" by simp
    have n: "\<not> substring_in ''--'' cs" using "2.prems" by simp
    have "re_sub SQL_FLATTEN_REGEX '' '' (c # cs) = c # re_sub SQL_FLATTEN_REGEX '' '' cs"
      using flatten_no_match[OF False ns] by (subst re_sub.simps) simp
    then show ?thesis using "2.IH"(2)[OF False n] False by simp
  qed
qed


lemma iter_contains_absent: "x \<notin> set m \<Longrightarrow> iter_contains x m = (False, [])"
  by (induction m) auto

lemma iter_contains_rest: "set (snd (iter_contains y m)) \<subseteq> set m"
  by (induction m) auto

text \<open>
  C2, as the code has it and without its half about \<^verbatim>\<open>MULTILINE\<close>. For every SQL token
  processed while no \<^verbatim>\<open>multiline\<close> directive is pending, the processed token carries the
  statement after \<^verbatim>\<open>re.sub(r'(\s+)|(\s*--\s*.*\s+)', ' ', ...)\<close> and \<^verbatim>\<open>strip()\<close>: every
  run of whitespace, and every \<^verbatim>\<open>--\<close> comment with the whitespace that ends it, has become
  one space. For a statement in which \<^verbatim>\<open>--\<close> does not occur, these are the contents the
  specification describes: whitespace collapsed to single spaces, both ends stripped.
\<close>

theorem sql_statement_flattened:
  assumes "type token = SQL" and "contents token = Text s"
    and "''multiline'' \<notin> set (case p_meta ps of Some m \<Rightarrow> m | None \<Rightarrow> [])"
  shows "\<exists>pt. process_token cfg token ps source = Inr (Some pt, ps\<lparr>p_meta := None\<rparr>, source) \<and>
           pt_contents pt = Text (strip (re_sub SQL_FLATTEN_REGEX '' '' s)) \<and>
           (\<not> substring_in ''--'' s \<longrightarrow> pt_contents pt = Text (spec_collapse_whitespace s))"
proof -
  let ?m = "case p_meta ps of Some m \<Rightarrow> m | None \<Rightarrow> []"
  obtain ex m1 where e: "iter_contains ''exclude'' ?m = (ex, m1)" by (cases "iter_contains ''exclude'' ?m")
  have "''multiline'' \<notin> set m1"
    using assms(3) iter_contains_rest[of "''exclude''" ?m] e by auto
  then have ml: "iter_contains ''multiline'' m1 = (False, [])"
    by (rule iter_contains_absent)
  obtain co m3 where c: "iter_contains ''clear_out'' (if ex then m1 else []) = (co, m3)"
    by (cases "iter_contains ''clear_out'' (if ex then m1 else [])")
  have "process_token cfg token ps source =
      Inr (Some \<lparr>pt_contents = Text (strip (re_sub SQL_FLATTEN_REGEX '' '' s)), pt_type = SQL,
                 pt_existing_params = ps\<lparr>p_meta := None\<rparr>\<rparr>, ps\<lparr>p_meta := None\<rparr>, source)"
    using assms(1,2) e ml c by (cases ex) (simp_all add: Let_def del: re_sub.simps)
  then show ?thesis
    by (auto simp: spec_collapse_whitespace_def re_sub_is_squeeze simp del: re_sub.simps)
qed

theorem sql_statement_flattened_witness:
  "\<exists>pt. process_token JSONConverter_init
       \<lparr>type = SQL, contents = Text ''SELECT a,   b\<newline>  FROM t;''\<rparr>
       \<lparr>p_output = ''out'', p_group = [], p_allow_comments = False, p_meta = Some [''clear_out'']\<rparr> []
     = Inr (Some pt, \<lparr>p_output = ''out'', p_group = [], p_allow_comments = False, p_meta = None\<rparr>, [])
     \<and> pt_contents pt = Text ''SELECT a, b FROM t;''"
proof -
  let ?tok = "\<lparr>type = SQL, contents = Text ''SELECT a,   b\<newline>  FROM t;''\<rparr>"
  let ?ps = "\<lparr>p_output = ''out'', p_group = [], p_allow_comments = False, p_meta = Some [''clear_out'']\<rparr>"
  have h: "type ?tok = SQL" "contents ?tok = Text ''SELECT a,   b\<newline>  FROM t;''"
    "''multiline'' \<notin> set (case p_meta ?ps of Some m \<Rightarrow> m | None \<Rightarrow> [])"
    by simp_all
  have n: "\<not> substring_in ''--'' ''SELECT a,   b\<newline>  FROM t;''" by code_simp
  have c: "spec_collapse_whitespace ''SELECT a,   b\<newline>  FROM t;'' = ''SELECT a, b FROM t;''"
    by code_simp
  from sql_statement_flattened[OF h, of JSONConverter_init "[]"] n c
  show ?thesis by auto
qed

text \<open>
  C2 as stated fails in both halves. Without directive, a statement with an inline comment
  loses the comment and keeps two spaces in a row. After the meta comment \<^verbatim>\<open>MULTILINE\<close> the
  statement is flattened all the same: \<^verbatim>\<open>meta\<close> is a \<^verbatim>\<open>map\<close> iterator, the test
  \<^verbatim>\<open>'exclude' in meta\<close> exhausts it, and \<^verbatim>\<open>'multiline' in meta\<close> is then false.
\<close>

theorem sql_flattening_counterexample:
  "process_token JSONConverter_init
       \<lparr>type = SQL, contents = Text ''SELECT a -- c\<newline>FROM t;''\<rparr>
       \<lparr>p_output = ''out'', p_group = [], p_allow_comments = False, p_meta = None\<rparr> []
     = Inr (Some \<lparr>pt_contents = Text ''SELECT a  FROM t;'', pt_type = SQL,
              pt_existing_params = \<lparr>p_output = ''out'', p_group = [], p_allow_comments = False, p_meta = None\<rparr>\<rparr>,
            \<lparr>p_output = ''out'', p_group = [], p_allow_comments = False, p_meta = None\<rparr>, [])
   \<and> spec_collapse_whitespace ''SELECT a -- c\<newline>FROM t;'' = ''SELECT a -- c FROM t;''
   \<and> ''SELECT a  FROM t;'' \<noteq> ''SELECT a -- c FROM t;''
   \<and> process_token JSONConverter_init
       \<lparr>type = META_COMMENT, contents = Text ''MULTILINE''\<rparr>
       \<lparr>p_output = ''out'', p_group = [], p_allow_comments = False, p_meta = None\<rparr>
       [\<lparr>type = SQL, contents = Text ''SELECT a\<newline>FROM t;''\<rparr>]
     = Inr (Some \<lparr>pt_contents = Text ''SELECT a FROM t;'', pt_type = SQL,
              pt_existing_params = \<lparr>p_output = ''out'', p_group = [], p_allow_comments = False, p_meta = None\<rparr>\<rparr>,
            \<lparr>p_output = ''out'', p_group = [], p_allow_comments = False, p_meta = None\<rparr>, [])
   \<and> ''SELECT a FROM t;'' \<noteq> ''SELECT a\<newline>FROM t;''"
  by code_simp

section \<open>Properties of the lexer\<close>

lemma strip_empty: "strip s = [] \<longleftrightarrow> lstrip s = []"
proof -
  have "strip s = [] \<longleftrightarrow> (\<forall>x \<in> set (rstrip s). isspace x)"
    by (simp add: strip_def lstrip_def dropWhile_eq_Nil_conv)
  also have "\<dots> \<longleftrightarrow> rstrip s = []"
  proof
    assume a: "\<forall>x \<in> set (rstrip s). isspace x"
    show "rstrip s = []"
    proof (rule ccontr)
      assume "rstrip s \<noteq> []"
      then have ne: "dropWhile isspace (rev s) \<noteq> []" by (simp add: rstrip_def)
      then have "\<not> isspace (hd (dropWhile isspace (rev s)))" by (rule hd_dropWhile)
      moreover have "hd (dropWhile isspace (rev s)) \<in> set (rstrip s)"
        using ne by (simp add: rstrip_def)
      ultimately show False using a by blast
    qed
  qed simp
  also have "\<dots> \<longleftrightarrow> lstrip s = []"
    by (auto simp: rstrip_def lstrip_def dropWhile_eq_Nil_conv)
  finally show ?thesis .
qed

lemma starter_initial:
  assumes "lower w \<in> set (map lower SQL_STARTERS)"
  shows "w \<noteq> [] \<and> lower_char (hd w) \<in> set ''spcdwer''"
proof -
  from assms obtain k where k: "k \<in> set SQL_STARTERS" "lower w = lower k" by auto
  have "list_all (\<lambda>k. k \<noteq> [] \<and> lower_char (hd k) \<in> set ''spcdwer'') SQL_STARTERS"
    by code_simp
  then have "k \<noteq> [] \<and> lower_char (hd k) \<in> set ''spcdwer''"
    using k(1) by (simp add: list_all_iff)
  moreover have "w \<noteq> [] \<and> lower_char (hd w) = lower_char (hd k)" if "k \<noteq> []"
    using k(2) that by (cases w; cases k) (auto simp: lower_def)
  ultimately show ?thesis by auto
qed

lemma initial_not_marker:
  assumes "lower_char c \<in> set ''spcdwer''"
  shows "c \<noteq> CHR ''-'' \<and> c \<noteq> CHR ''/''"
proof -
  have "lower_char (CHR ''-'') \<notin> set ''spcdwer''" "lower_char (CHR ''/'') \<notin> set ''spcdwer''"
    by code_simp+
  then show ?thesis using assms by auto
qed

lemma directives_ignore_case:
  "tokenizer [''-- dialect : postgres\<newline>''] =
     ([\<lparr>type = HEADER, contents = HeaderDict ''dialect'' ''postgres''\<rparr>], None)"
  "tokenizer [''/* startgroup : users */\<newline>''] =
     ([\<lparr>type = GROUP_TAG, contents = GroupDict ''startgroup'' ''users'' None\<rparr>], None)"
  "tokenizer [''/*\<newline>'', '' exclude\<newline>'', ''*/\<newline>''] =
     ([\<lparr>type = META_COMMENT, contents = Text ''exclude''\<rparr>], None)"
  by code_simp+

text \<open>
  C9. The lexer compares the first word of a line, as \<^verbatim>\<open>line.lstrip().split(' ', 1)[0]\<close>
  gives it, with the statement starters as they are written, in upper case. A line whose first
  word is a starter in another case is not blank, is no comment, and is no statement: the
  generator yields nothing for it and goes on with the next line. The header fields, the
  group tags and the meta directives are matched under \<^verbatim>\<open>re.I\<close>: written in lower case
  they give their tokens.
\<close>

theorem case_variant_starter_dropped:
  assumes "lower (first_word line) \<in> set (map lower SQL_STARTERS)"
    and "first_word line \<notin> set SQL_STARTERS"
  shows "tokenizer (line # file) = tokenizer file \<and>
         tokenizer [''-- dialect : postgres\<newline>''] =
           ([\<lparr>type = HEADER, contents = HeaderDict ''dialect'' ''postgres''\<rparr>], None) \<and>
         tokenizer [''/* startgroup : users */\<newline>''] =
           ([\<lparr>type = GROUP_TAG, contents = GroupDict ''startgroup'' ''users'' None\<rparr>], None) \<and>
         tokenizer [''/*\<newline>'', '' exclude\<newline>'', ''*/\<newline>''] =
           ([\<lparr>type = META_COMMENT, contents = Text ''exclude''\<rparr>], None)"
proof -
  let ?l = "lstrip line"
  from starter_initial[OF assms(1)] have w: "first_word line \<noteq> []"
    "lower_char (hd (first_word line)) \<in> set ''spcdwer''" by auto
  then have l: "?l \<noteq> []" "hd ?l = hd (first_word line)"
    by (cases ?l; simp add: first_word_def split: if_splits)+
  from initial_not_marker[OF w(2)] l have c: "hd ?l \<noteq> CHR ''-''" "hd ?l \<noteq> CHR ''/''" by auto
  have 1: "strip line \<noteq> []" using l strip_empty by blast
  have 2: "\<not> startswith ?l LINE_COMMENT_START"
    using l c by (cases ?l) (auto simp: startswith_def LINE_COMMENT_START_def)
  have 3: "\<not> startswith ?l BLOCK_COMMENT_START"
    using l c by (cases ?l) (auto simp: startswith_def BLOCK_COMMENT_START_def)
  have "tokenizer (line # file) = tokenizer file" using 1 2 3 assms(2) by simp
  then show ?thesis using directives_ignore_case by simp
qed

theorem case_variant_starter_dropped_witness:
  "tokenizer [''select id from users;\<newline>'', ''SELECT 2;\<newline>''] =
     ([\<lparr>type = SQL, contents = Text ''SELECT 2;''\<rparr>], None)"
proof -
  have h: "lower (first_word ''select id from users;\<newline>'') \<in> set (map lower SQL_STARTERS)"
    "first_word ''select id from users;\<newline>'' \<notin> set SQL_STARTERS"
    by code_simp+
  have "tokenizer [''SELECT 2;\<newline>''] = ([\<lparr>type = SQL, contents = Text ''SELECT 2;''\<rparr>], None)"
    by code_simp
  with case_variant_starter_dropped[OF h, of "[''SELECT 2;\<newline>'']"] show ?thesis by simp
qed

end
